theory Spec2Isabelle
  imports Main "HOL-Library.Word"
begin

section \<open>Data model of \<open>config.go\<close>\<close>

text \<open>
  Go's \<open>time.Duration\<close> is an \<open>int64\<close> counting nanoseconds, \<open>int64\<close> is a 64-bit
  two's complement integer and \<open>int\<close> has the width of the platform (64 bits on the
  platforms the library is built for). All three are 64-bit words here; the order
  comparisons of the source are the signed ones (\<open>word_sless\<close>).
\<close>

type_synonym Duration = "64 word"
type_synonym int64 = "64 word"
type_synonym go_int = "64 word"

text \<open>The constants of package \<open>time\<close> that the source multiplies with.\<close>

definition Nanosecond :: Duration where
  "Nanosecond = 1"

definition Microsecond :: Duration where
  "Microsecond = 1000 * Nanosecond"

definition Millisecond :: Duration where
  "Millisecond = 1000 * Microsecond"

definition Second :: Duration where
  "Second = 1000 * Millisecond"

definition Minute :: Duration where
  "Minute = 60 * Second"

text \<open>
  A \<open>time.Time\<close> is a struct of the standard library (wall clock word, monotonic
  extension, optional location). The configuration only copies it.
\<close>

datatype Time = Time (wall: "64 word") (ext: "64 word") (loc: "nat option")

text \<open>
  The field \<open>atTimestamp\<close> is a pointer \<open>*time.Time\<close>, and Go's \<open>==\<close> on two \<open>Config\<close>
  values compares the pointers, not the instants they point to. The instants therefore
  live in a store: a list of cells, the address of a cell being its index. \<open>new_Time\<close>
  is the allocation that Go performs when the address of a variable is taken and kept:
  a cell that did not exist before, holding the value. No cell is ever written again or
  freed. \<open>load\<close> reads a pointer: nil, an address with no cell, or the instant in the
  cell.
\<close>

type_synonym addr = nat
type_synonym heap = "Time list"

definition new_Time :: "Time \<Rightarrow> heap \<Rightarrow> addr \<times> heap" where
  "new_Time t h = (length h, h @ [t])"

datatype deref = NilPtr | BadPtr | PointsTo Time

definition load :: "heap \<Rightarrow> addr option \<Rightarrow> deref" where
  "load h p =
     (case p of None \<Rightarrow> NilPtr
      | Some a \<Rightarrow> if a < length h then PointsTo (h ! a) else BadPtr)"

text \<open>
  Modelled from the spec: the interface types \<open>StatReceiver\<close> and \<open>Logger\<close> and their
  no-op implementations \<open>NoopStatReceiver\<close> and \<open>DefaultLogger\<close> are declared in files of
  the package other than \<open>config.go\<close>. The spec calls them capability references with a
  no-op default. A value of interface type is \<open>None\<close> for Go's \<open>nil\<close> and \<open>Some\<close> of an
  implementation otherwise; implementations other than the default are told apart by a
  number.
\<close>

datatype StatReceiver = NoopStatReceiver | OtherStatReceiver nat

datatype Logger = DefaultLogger | OtherLogger nat

text \<open>
  The shard iterator types are string constants of the AWS SDK's \<open>kinesis\<close> package; the
  doc comments of the modifiers name their values.
\<close>

definition ShardIteratorTypeAtSequenceNumber :: string where
  "ShardIteratorTypeAtSequenceNumber = ''AT_SEQUENCE_NUMBER''"

definition ShardIteratorTypeAfterSequenceNumber :: string where
  "ShardIteratorTypeAfterSequenceNumber = ''AFTER_SEQUENCE_NUMBER''"

definition ShardIteratorTypeTrimHorizon :: string where
  "ShardIteratorTypeTrimHorizon = ''TRIM_HORIZON''"

definition ShardIteratorTypeLatest :: string where
  "ShardIteratorTypeLatest = ''LATEST''"

definition ShardIteratorTypeAtTimestamp :: string where
  "ShardIteratorTypeAtTimestamp = ''AT_TIMESTAMP''"

text \<open>
  The struct \<open>Config\<close>, field by field. The pointer \<open>atTimestamp *time.Time\<close> is \<open>None\<close>
  when nil and \<open>Some\<close> of an address of the store otherwise. Equality of two records is
  Go's \<open>==\<close> on the structs: field by field, pointers by address.
\<close>

record Config =
  stats :: "StatReceiver option"
  logger :: "Logger option"
  throttleDelay :: Duration
  commitFrequency :: Duration
  shardCheckFrequency :: Duration
  leaderActionFrequency :: Duration
  bufferSize :: go_int
  dynamoReadCapacity :: int64
  dynamoWriteCapacity :: int64
  dynamoWaiterDelay :: Duration
  shardIteratorType :: string
  atTimestamp :: "addr option"
  sequenceNumber :: string

text \<open>
  Modelled from the spec: the error values \<open>ErrConfigInvalid...\<close> are declared in another
  file of the package. The spec lists them as distinct error kinds, one per name.
\<close>

datatype config_error =
    ErrConfigInvalidThrottleDelay
  | ErrConfigInvalidCommitFrequency
  | ErrConfigInvalidShardCheckFrequency
  | ErrConfigInvalidLeaderActionFrequency
  | ErrConfigInvalidBufferSize
  | ErrConfigInvalidStats
  | ErrConfigInvalidDynamoCapacity
  | ErrConfigInvalidLogger

section \<open>The default factory\<close>

text \<open>
  \<open>NewConfig\<close>: the composite literal sets eleven fields; \<open>atTimestamp\<close> and
  \<open>sequenceNumber\<close> keep Go's zero values (nil and the empty string).
\<close>

definition NewConfig :: Config where
  "NewConfig = \<lparr>
     stats = Some NoopStatReceiver,
     logger = Some DefaultLogger,
     throttleDelay = 250 * Millisecond,
     commitFrequency = 1000 * Millisecond,
     shardCheckFrequency = 1 * Minute,
     leaderActionFrequency = 1 * Minute,
     bufferSize = 100,
     dynamoReadCapacity = 10,
     dynamoWriteCapacity = 10,
     dynamoWaiterDelay = 3 * Second,
     shardIteratorType = ShardIteratorTypeAfterSequenceNumber,
     atTimestamp = None,
     sequenceNumber = []
   \<rparr>"

section \<open>The fluent modifiers\<close>

text \<open>
  Every modifier has a value receiver: the method works on its own copy of the struct,
  assigns to fields of the copy and returns it. The receiver comes first. Fourteen of
  the fifteen methods touch nothing but that copy. \<open>WithShardIteratorAtTimestamp\<close> stores
  \<open>&t\<close>, the address of its own parameter: every call has a parameter of its own, so the
  method takes the store and returns it with one more cell.
\<close>

definition WithThrottleDelay :: "Config \<Rightarrow> Duration \<Rightarrow> Config" where
  "WithThrottleDelay c delay = c\<lparr>throttleDelay := delay\<rparr>"

definition WithCommitFrequency :: "Config \<Rightarrow> Duration \<Rightarrow> Config" where
  "WithCommitFrequency c f = c\<lparr>commitFrequency := f\<rparr>"

definition WithShardCheckFrequency :: "Config \<Rightarrow> Duration \<Rightarrow> Config" where
  "WithShardCheckFrequency c f = c\<lparr>shardCheckFrequency := f\<rparr>"

definition WithLeaderActionFrequency :: "Config \<Rightarrow> Duration \<Rightarrow> Config" where
  "WithLeaderActionFrequency c f = c\<lparr>leaderActionFrequency := f\<rparr>"

definition WithBufferSize :: "Config \<Rightarrow> go_int \<Rightarrow> Config" where
  "WithBufferSize c n = c\<lparr>bufferSize := n\<rparr>"

definition WithStats :: "Config \<Rightarrow> StatReceiver option \<Rightarrow> Config" where
  "WithStats c s = c\<lparr>stats := s\<rparr>"

definition WithDynamoReadCapacity :: "Config \<Rightarrow> int64 \<Rightarrow> Config" where
  "WithDynamoReadCapacity c readCapacity = c\<lparr>dynamoReadCapacity := readCapacity\<rparr>"

definition WithDynamoWriteCapacity :: "Config \<Rightarrow> int64 \<Rightarrow> Config" where
  "WithDynamoWriteCapacity c writeCapacity = c\<lparr>dynamoWriteCapacity := writeCapacity\<rparr>"

definition WithDynamoWaiterDelay :: "Config \<Rightarrow> Duration \<Rightarrow> Config" where
  "WithDynamoWaiterDelay c delay = c\<lparr>dynamoWaiterDelay := delay\<rparr>"

definition WithLogger :: "Config \<Rightarrow> Logger option \<Rightarrow> Config" where
  "WithLogger c l = c\<lparr>logger := l\<rparr>"

definition WithShardIteratorAtTimestamp :: "Config \<Rightarrow> Time \<Rightarrow> heap \<Rightarrow> Config \<times> heap" where
  "WithShardIteratorAtTimestamp c t h =
     (case new_Time t h of
        (p, h') \<Rightarrow>
          (c\<lparr>shardIteratorType := ShardIteratorTypeAtTimestamp, atTimestamp := Some p\<rparr>, h'))"

definition WithShardIteratorLatest :: "Config \<Rightarrow> Config" where
  "WithShardIteratorLatest c = c\<lparr>shardIteratorType := ShardIteratorTypeLatest\<rparr>"

definition WithShardIteratorAtSequenceNumber :: "Config \<Rightarrow> string \<Rightarrow> Config" where
  "WithShardIteratorAtSequenceNumber c sn =
     c\<lparr>shardIteratorType := ShardIteratorTypeLatest, sequenceNumber := sn\<rparr>"

definition WithShardIteratorAfterSequenceNumber :: "Config \<Rightarrow> string \<Rightarrow> Config" where
  "WithShardIteratorAfterSequenceNumber c sn =
     c\<lparr>shardIteratorType := ShardIteratorTypeAfterSequenceNumber, sequenceNumber := sn\<rparr>"

definition WithShardIteratorTrimHorizon :: "Config \<Rightarrow> Config" where
  "WithShardIteratorTrimHorizon c = c\<lparr>shardIteratorType := ShardIteratorTypeTrimHorizon\<rparr>"

section \<open>The validator\<close>

text \<open>
  \<open>validateConfig\<close> returns Go's \<open>error\<close>: \<open>None\<close> is \<open>nil\<close> (the configuration is
  accepted), \<open>Some e\<close> the error returned. The argument is the struct the pointer refers
  to.
\<close>

definition validateConfig :: "Config \<Rightarrow> config_error option" where
  "validateConfig c =
     (if throttleDelay c <s 200 * Millisecond then Some ErrConfigInvalidThrottleDelay
      else if commitFrequency c = 0 then Some ErrConfigInvalidCommitFrequency
      else if shardCheckFrequency c = 0 then Some ErrConfigInvalidShardCheckFrequency
      else if leaderActionFrequency c = 0 then Some ErrConfigInvalidLeaderActionFrequency
      else if leaderActionFrequency c <s shardCheckFrequency c
        then Some ErrConfigInvalidLeaderActionFrequency
      else if bufferSize c = 0 then Some ErrConfigInvalidBufferSize
      else if stats c = None then Some ErrConfigInvalidStats
      else if dynamoReadCapacity c = 0 \<or> dynamoWriteCapacity c = 0
        then Some ErrConfigInvalidDynamoCapacity
      else if logger c = None then Some ErrConfigInvalidLogger
      else None)"

section \<open>The documented order of the checks\<close>

text \<open>
  The validator as the specification words it: nine checks in a fixed order, each with
  its error kind, and the result is the error kind of the first check that fails (no
  error when none fails). This definition follows the specification, not the source; it
  is what \<open>validateConfig\<close> is compared with.
\<close>

definition documented_checks :: "((Config \<Rightarrow> bool) \<times> config_error) list" where
  "documented_checks =
     [(\<lambda>c. throttleDelay c <s 200 * Millisecond, ErrConfigInvalidThrottleDelay),
      (\<lambda>c. commitFrequency c = 0, ErrConfigInvalidCommitFrequency),
      (\<lambda>c. shardCheckFrequency c = 0, ErrConfigInvalidShardCheckFrequency),
      (\<lambda>c. leaderActionFrequency c = 0, ErrConfigInvalidLeaderActionFrequency),
      (\<lambda>c. leaderActionFrequency c <s shardCheckFrequency c,
         ErrConfigInvalidLeaderActionFrequency),
      (\<lambda>c. bufferSize c = 0, ErrConfigInvalidBufferSize),
      (\<lambda>c. stats c = None, ErrConfigInvalidStats),
      (\<lambda>c. dynamoReadCapacity c = 0 \<or> dynamoWriteCapacity c = 0,
         ErrConfigInvalidDynamoCapacity),
      (\<lambda>c. logger c = None, ErrConfigInvalidLogger)]"

fun first_failing :: "(('a \<Rightarrow> bool) \<times> 'e) list \<Rightarrow> 'a \<Rightarrow> 'e option" where
  "first_failing [] c = None"
| "first_failing ((fails, e) # rest) c = (if fails c then Some e else first_failing rest c)"

text \<open>All violations at once, in the order of the checks: what an aggregate would report.\<close>

definition all_failing :: "(('a \<Rightarrow> bool) \<times> 'e) list \<Rightarrow> 'a \<Rightarrow> 'e list" where
  "all_failing checks c = map snd (filter (\<lambda>p. fst p c) checks)"

section \<open>Modifier calls as data\<close>

text \<open>
  To speak about every modifier at once, a call of a modifier is a value: the method
  chosen and its argument. \<open>apply_modifier\<close> performs the call on a receiver in a store
  and returns the result with the store after the call, \<open>targets\<close> lists the fields that
  the body of the method assigns to, and \<open>allocates\<close> tells the method that takes an
  address.
\<close>

datatype field =
    F_stats | F_logger | F_throttleDelay | F_commitFrequency | F_shardCheckFrequency
  | F_leaderActionFrequency | F_bufferSize | F_dynamoReadCapacity | F_dynamoWriteCapacity
  | F_dynamoWaiterDelay | F_shardIteratorType | F_atTimestamp | F_sequenceNumber

datatype modifier =
    ThrottleDelay Duration
  | CommitFrequency Duration
  | ShardCheckFrequency Duration
  | LeaderActionFrequency Duration
  | BufferSize go_int
  | Stats "StatReceiver option"
  | DynamoReadCapacity int64
  | DynamoWriteCapacity int64
  | DynamoWaiterDelay Duration
  | Logger "Logger option"
  | ShardIteratorAtTimestamp Time
  | ShardIteratorLatest
  | ShardIteratorAtSequenceNumber string
  | ShardIteratorAfterSequenceNumber string
  | ShardIteratorTrimHorizon

fun apply_modifier :: "modifier \<Rightarrow> Config \<Rightarrow> heap \<Rightarrow> Config \<times> heap" where
  "apply_modifier (ThrottleDelay d) c h = (WithThrottleDelay c d, h)"
| "apply_modifier (CommitFrequency d) c h = (WithCommitFrequency c d, h)"
| "apply_modifier (ShardCheckFrequency d) c h = (WithShardCheckFrequency c d, h)"
| "apply_modifier (LeaderActionFrequency d) c h = (WithLeaderActionFrequency c d, h)"
| "apply_modifier (BufferSize n) c h = (WithBufferSize c n, h)"
| "apply_modifier (Stats s) c h = (WithStats c s, h)"
| "apply_modifier (DynamoReadCapacity n) c h = (WithDynamoReadCapacity c n, h)"
| "apply_modifier (DynamoWriteCapacity n) c h = (WithDynamoWriteCapacity c n, h)"
| "apply_modifier (DynamoWaiterDelay d) c h = (WithDynamoWaiterDelay c d, h)"
| "apply_modifier (Logger l) c h = (WithLogger c l, h)"
| "apply_modifier (ShardIteratorAtTimestamp t) c h = WithShardIteratorAtTimestamp c t h"
| "apply_modifier ShardIteratorLatest c h = (WithShardIteratorLatest c, h)"
| "apply_modifier (ShardIteratorAtSequenceNumber sn) c h =
     (WithShardIteratorAtSequenceNumber c sn, h)"
| "apply_modifier (ShardIteratorAfterSequenceNumber sn) c h =
     (WithShardIteratorAfterSequenceNumber c sn, h)"
| "apply_modifier ShardIteratorTrimHorizon c h = (WithShardIteratorTrimHorizon c, h)"

fun allocates :: "modifier \<Rightarrow> bool" where
  "allocates (ShardIteratorAtTimestamp t) = True"
| "allocates m = False"

fun targets :: "modifier \<Rightarrow> field set" where
  "targets (ThrottleDelay d) = {F_throttleDelay}"
| "targets (CommitFrequency d) = {F_commitFrequency}"
| "targets (ShardCheckFrequency d) = {F_shardCheckFrequency}"
| "targets (LeaderActionFrequency d) = {F_leaderActionFrequency}"
| "targets (BufferSize n) = {F_bufferSize}"
| "targets (Stats s) = {F_stats}"
| "targets (DynamoReadCapacity n) = {F_dynamoReadCapacity}"
| "targets (DynamoWriteCapacity n) = {F_dynamoWriteCapacity}"
| "targets (DynamoWaiterDelay d) = {F_dynamoWaiterDelay}"
| "targets (Logger l) = {F_logger}"
| "targets (ShardIteratorAtTimestamp t) = {F_shardIteratorType, F_atTimestamp}"
| "targets ShardIteratorLatest = {F_shardIteratorType}"
| "targets (ShardIteratorAtSequenceNumber sn) = {F_shardIteratorType, F_sequenceNumber}"
| "targets (ShardIteratorAfterSequenceNumber sn) = {F_shardIteratorType, F_sequenceNumber}"
| "targets ShardIteratorTrimHorizon = {F_shardIteratorType}"

text \<open>
  \<open>unchanged_outside F c c'\<close>: the configurations \<open>c\<close> and \<open>c'\<close> have the same value in
  every field that is not in \<open>F\<close>.
\<close>

definition unchanged_outside :: "field set \<Rightarrow> Config \<Rightarrow> Config \<Rightarrow> bool" where
  "unchanged_outside F c c' \<longleftrightarrow>
     (F_stats \<in> F \<or> stats c' = stats c)
   \<and> (F_logger \<in> F \<or> logger c' = logger c)
   \<and> (F_throttleDelay \<in> F \<or> throttleDelay c' = throttleDelay c)
   \<and> (F_commitFrequency \<in> F \<or> commitFrequency c' = commitFrequency c)
   \<and> (F_shardCheckFrequency \<in> F \<or> shardCheckFrequency c' = shardCheckFrequency c)
   \<and> (F_leaderActionFrequency \<in> F \<or> leaderActionFrequency c' = leaderActionFrequency c)
   \<and> (F_bufferSize \<in> F \<or> bufferSize c' = bufferSize c)
   \<and> (F_dynamoReadCapacity \<in> F \<or> dynamoReadCapacity c' = dynamoReadCapacity c)
   \<and> (F_dynamoWriteCapacity \<in> F \<or> dynamoWriteCapacity c' = dynamoWriteCapacity c)
   \<and> (F_dynamoWaiterDelay \<in> F \<or> dynamoWaiterDelay c' = dynamoWaiterDelay c)
   \<and> (F_shardIteratorType \<in> F \<or> shardIteratorType c' = shardIteratorType c)
   \<and> (F_atTimestamp \<in> F \<or> atTimestamp c' = atTimestamp c)
   \<and> (F_sequenceNumber \<in> F \<or> sequenceNumber c' = sequenceNumber c)"

section \<open>Programs that call modifiers\<close>

text \<open>
  \<open>chain ms c h\<close> is the chained call \<open>c.m1(...).m2(...)\<close> and so on, started in the
  store \<open>h\<close>.
\<close>

fun chain :: "modifier list \<Rightarrow> Config \<Rightarrow> heap \<Rightarrow> Config \<times> heap" where
  "chain [] c h = (c, h)"
| "chain (m # ms) c h = (case apply_modifier m c h of (c', h') \<Rightarrow> chain ms c' h')"

text \<open>
  The programs below compute two configurations, one after the other in the same store,
  to compare them at the end: the first result, the second result and the final store.
\<close>

record outcome =
  first :: Config
  second :: Config
  store :: heap

text \<open>
  \<open>call_twice m c h\<close> is the program \<open>out1 := c.m(v); out2 := c.m(v)\<close>: the same modifier
  called twice on the same receiver with the same argument.
\<close>

definition call_twice :: "modifier \<Rightarrow> Config \<Rightarrow> heap \<Rightarrow> outcome" where
  "call_twice m c h =
     (case apply_modifier m c h of
        (out1, h1) \<Rightarrow>
          (case apply_modifier m c h1 of
             (out2, h2) \<Rightarrow> \<lparr>first = out1, second = out2, store = h2\<rparr>))"

text \<open>
  \<open>call_both_orders m1 m2 c h\<close> is the program
  \<open>out1 := c.m1(v1).m2(v2); out2 := c.m2(v2).m1(v1)\<close>.
\<close>

definition call_both_orders :: "modifier \<Rightarrow> modifier \<Rightarrow> Config \<Rightarrow> heap \<Rightarrow> outcome" where
  "call_both_orders m1 m2 c h =
     (case chain [m1, m2] c h of
        (out1, h1) \<Rightarrow>
          (case chain [m2, m1] c h1 of
             (out2, h2) \<Rightarrow> \<lparr>first = out1, second = out2, store = h2\<rparr>))"

text \<open>
  \<open>timestamp_again t t' c h\<close> is the program
  \<open>out1 := c.WithShardIteratorAtTimestamp(t).WithShardIteratorAtTimestamp(t');
  out2 := c.WithShardIteratorAtTimestamp(t')\<close>.
\<close>

definition timestamp_again :: "Time \<Rightarrow> Time \<Rightarrow> Config \<Rightarrow> heap \<Rightarrow> outcome" where
  "timestamp_again t t' c h =
     (case chain [ShardIteratorAtTimestamp t, ShardIteratorAtTimestamp t'] c h of
        (out1, h1) \<Rightarrow>
          (case WithShardIteratorAtTimestamp c t' h1 of
             (out2, h2) \<Rightarrow> \<lparr>first = out1, second = out2, store = h2\<rparr>))"

text \<open>
  \<open>same_content h c c'\<close>: in the store \<open>h\<close>, the configurations \<open>c\<close> and \<open>c'\<close> are equal in
  every field other than \<open>atTimestamp\<close>, and their \<open>atTimestamp\<close> pointers are both nil or
  point to equal instants. This is equality of what can be read from the two values; it
  does not say that the two pointers are the same address.
\<close>

definition same_content :: "heap \<Rightarrow> Config \<Rightarrow> Config \<Rightarrow> bool" where
  "same_content h c c' \<longleftrightarrow>
     c\<lparr>atTimestamp := None\<rparr> = c'\<lparr>atTimestamp := None\<rparr>
   \<and> load h (atTimestamp c) = load h (atTimestamp c')"

section \<open>Concrete configurations\<close>

text \<open>
  The default configuration with the three frequencies, the buffer size and the two
  capacities replaced by negative numbers.
\<close>

definition negative_config :: Config where
  "negative_config =
     WithDynamoWriteCapacity
       (WithDynamoReadCapacity
         (WithBufferSize
           (WithLeaderActionFrequency
             (WithShardCheckFrequency (WithCommitFrequency NewConfig (- 1)) (- 2))
             (- 1))
           (- 1))
         (- 1))
       (- 1)"

text \<open>
  The default configuration with a throttle delay of 100 ms and a shard check frequency
  of two minutes: it violates the first and the fifth check.
\<close>

text \<open>An instant, and the default configuration pointing to it in the store \<open>[noon]\<close>.\<close>

definition noon :: Time where
  "noon = Time 0 43200 None"

definition at_noon :: Config where
  "at_noon = fst (WithShardIteratorAtTimestamp NewConfig noon [])"

definition slow_leader_fast_poll :: Config where
  "slow_leader_fast_poll =
     WithShardCheckFrequency (WithThrottleDelay NewConfig (100 * Millisecond)) (2 * Minute)"

section \<open>Facts used throughout\<close>

lemmas modifier_defs =
  WithThrottleDelay_def WithCommitFrequency_def WithShardCheckFrequency_def
  WithLeaderActionFrequency_def WithBufferSize_def WithStats_def
  WithDynamoReadCapacity_def WithDynamoWriteCapacity_def WithDynamoWaiterDelay_def
  WithLogger_def WithShardIteratorAtTimestamp_def WithShardIteratorLatest_def
  WithShardIteratorAtSequenceNumber_def WithShardIteratorAfterSequenceNumber_def
  WithShardIteratorTrimHorizon_def

lemma Millisecond_eq: "Millisecond = 1000000"
  by (simp add: Millisecond_def Microsecond_def Nanosecond_def)

lemma Second_eq: "Second = 1000000000"
  by (simp add: Second_def Millisecond_eq)

lemma Minute_eq: "Minute = 60000000000"
  by (simp add: Minute_def Second_eq)

lemmas unit_eqs = Millisecond_eq Second_eq Minute_eq

lemma validateConfig_NewConfig: "validateConfig NewConfig = None"
  by (simp add: validateConfig_def NewConfig_def unit_eqs word_sless_alt)

lemma first_failing_all_failing:
  "first_failing checks c = (case all_failing checks c of [] \<Rightarrow> None | e # es \<Rightarrow> Some e)"
  by (induction checks c rule: first_failing.induct) (simp_all add: all_failing_def)

lemma validateConfig_ignores_start_mode:
  "validateConfig (c\<lparr>shardIteratorType := ty, atTimestamp := ts\<rparr>) = validateConfig c"
  by (simp add: validateConfig_def)

lemmas heap_defs = new_Time_def load_def

lemma apply_modifier_frame: "unchanged_outside (targets m) c (fst (apply_modifier m c h))"
  by (cases m) (simp_all add: unchanged_outside_def modifier_defs new_Time_def)

lemma apply_modifier_keeps_cells: "take (length h) (snd (apply_modifier m c h)) = h"
  by (cases m) (simp_all add: WithShardIteratorAtTimestamp_def new_Time_def)

lemma apply_modifier_keeps_pointee:
  assumes "load h p \<noteq> BadPtr"
  shows "load (snd (apply_modifier m c h)) p = load h p"
  using assms
  by (cases m)
    (auto simp add: WithShardIteratorAtTimestamp_def heap_defs nth_append
      split: option.splits if_splits)

lemma call_twice_equal:
  assumes "\<not> allocates m"
  shows "first (call_twice m c h) = second (call_twice m c h)"
  using assms by (cases m) (simp_all add: call_twice_def)

lemma call_twice_same_content:
  "same_content (store (call_twice m c h)) (first (call_twice m c h))
     (second (call_twice m c h))"
  by (cases m)
    (simp_all add: call_twice_def same_content_def modifier_defs heap_defs nth_append)

lemma call_twice_fresh_pointer:
  assumes "allocates m"
  shows "atTimestamp (first (call_twice m c h)) \<noteq> atTimestamp (second (call_twice m c h))"
  using assms by (cases m) (simp_all add: call_twice_def modifier_defs heap_defs)

lemma both_orders_equal:
  assumes "targets m1 \<inter> targets m2 = {}" and "\<not> allocates m1" and "\<not> allocates m2"
  shows "first (call_both_orders m1 m2 c h) = second (call_both_orders m1 m2 c h)"
  using assms
  by (cases m1; cases m2; simp; simp add: call_both_orders_def modifier_defs)

lemma both_orders_same_content:
  assumes "targets m1 \<inter> targets m2 = {}"
  shows "same_content (store (call_both_orders m1 m2 c h))
     (first (call_both_orders m1 m2 c h)) (second (call_both_orders m1 m2 c h))"
  using assms
  by (cases m1; cases m2; simp;
      simp add: call_both_orders_def same_content_def modifier_defs heap_defs nth_append)

section \<open>What an accepted configuration guarantees\<close>

text \<open>
  Claim C1, as stated: every configuration that \<open>validateConfig\<close> accepts has strictly
  positive commit, shard check and leader action frequencies, buffer size and read and
  write capacities. The source compares these fields with zero only, and all of them are
  signed, so this fails: \<open>negative_config\<close> is accepted although each of the six fields is
  negative.
\<close>

theorem accepted_negative_counterexample:
  "validateConfig negative_config = None
   \<and> commitFrequency negative_config <s 0
   \<and> shardCheckFrequency negative_config <s 0
   \<and> leaderActionFrequency negative_config <s 0
   \<and> bufferSize negative_config <s 0
   \<and> dynamoReadCapacity negative_config <s 0
   \<and> dynamoWriteCapacity negative_config <s 0"
  by (simp add: negative_config_def validateConfig_def NewConfig_def modifier_defs unit_eqs
      word_sless_alt)

text \<open>
  Claim C1, amended: every configuration that \<open>validateConfig\<close> accepts has commit, shard
  check and leader action frequencies, buffer size and read and write capacities that
  are all different from zero.
\<close>

theorem accepted_nonzero:
  assumes "validateConfig c = None"
  shows "commitFrequency c \<noteq> 0 \<and> shardCheckFrequency c \<noteq> 0
     \<and> leaderActionFrequency c \<noteq> 0 \<and> bufferSize c \<noteq> 0
     \<and> dynamoReadCapacity c \<noteq> 0 \<and> dynamoWriteCapacity c \<noteq> 0"
  using assms by (simp add: validateConfig_def split: if_splits)

theorem accepted_nonzero_witness:
  "validateConfig NewConfig = None
   \<and> commitFrequency NewConfig \<noteq> 0 \<and> shardCheckFrequency NewConfig \<noteq> 0
   \<and> leaderActionFrequency NewConfig \<noteq> 0 \<and> bufferSize NewConfig \<noteq> 0
   \<and> dynamoReadCapacity NewConfig \<noteq> 0 \<and> dynamoWriteCapacity NewConfig \<noteq> 0"
  using validateConfig_NewConfig accepted_nonzero [OF validateConfig_NewConfig] by simp

section \<open>The order of the checks\<close>

text \<open>
  Claim C2. For every configuration, \<open>validateConfig\<close> returns what the nine documented
  checks, tried in their documented order, give: the error kind of the first check that
  fails, and no error when none fails. It is a single error kind, the head of the list
  of all violations, not that list.
\<close>

theorem validateConfig_first_failing:
  "length documented_checks = 9
   \<and> validateConfig c = first_failing documented_checks c
   \<and> validateConfig c =
       (case all_failing documented_checks c of [] \<Rightarrow> None | e # es \<Rightarrow> Some e)"
proof -
  have order: "validateConfig c = first_failing documented_checks c"
    by (simp add: validateConfig_def documented_checks_def)
  have count: "length documented_checks = 9"
    by (simp add: documented_checks_def)
  from order count show ?thesis
    by (simp add: first_failing_all_failing)
qed

section \<open>The defaults are valid\<close>

text \<open>
  Claim C3. The configuration that \<open>NewConfig\<close> returns is accepted by \<open>validateConfig\<close>
  as it is, and its fields are the documented defaults: throttle delay 250 ms, commit
  frequency 1000 ms, shard check and leader action frequency one minute each, buffer size
  100, read and write capacity 10, waiter delay 3 s, start mode AFTER_SEQUENCE_NUMBER,
  the no-op stats receiver and the default logger.
\<close>

theorem NewConfig_valid:
  "validateConfig NewConfig = None
   \<and> throttleDelay NewConfig = 250000000
   \<and> commitFrequency NewConfig = 1000000000
   \<and> shardCheckFrequency NewConfig = 60000000000
   \<and> leaderActionFrequency NewConfig = 60000000000
   \<and> bufferSize NewConfig = 100
   \<and> dynamoReadCapacity NewConfig = 10
   \<and> dynamoWriteCapacity NewConfig = 10
   \<and> dynamoWaiterDelay NewConfig = 3000000000
   \<and> shardIteratorType NewConfig = ''AFTER_SEQUENCE_NUMBER''
   \<and> stats NewConfig = Some NoopStatReceiver
   \<and> logger NewConfig = Some DefaultLogger"
  by (simp add: validateConfig_def NewConfig_def Millisecond_eq Second_eq Minute_eq
      ShardIteratorTypeAfterSequenceNumber_def word_sless_alt)

section \<open>Rejected configurations\<close>

text \<open>
  Claim C4. For every configuration \<open>c\<close> and every duration \<open>d\<close> strictly below the floor
  of 200 ms, validating \<open>c.WithThrottleDelay(d)\<close> gives \<open>ErrConfigInvalidThrottleDelay\<close>.
  The instance at the default configuration and 100 ms follows it.
\<close>

theorem throttle_below_floor_rejected:
  assumes "d <s 200 * Millisecond"
  shows "validateConfig (WithThrottleDelay c d) = Some ErrConfigInvalidThrottleDelay"
  using assms by (simp add: validateConfig_def WithThrottleDelay_def)

theorem throttle_below_floor_rejected_witness:
  "(100 * Millisecond :: Duration) <s 200 * Millisecond
   \<and> validateConfig (WithThrottleDelay NewConfig (100 * Millisecond))
       = Some ErrConfigInvalidThrottleDelay"
proof -
  have below: "(100 * Millisecond :: Duration) <s 200 * Millisecond"
    by (simp add: Millisecond_eq word_sless_alt)
  from below throttle_below_floor_rejected [OF below, of NewConfig]
  show ?thesis by simp
qed

text \<open>
  Claim C5, as stated: every configuration whose shard check frequency is strictly
  greater than its leader action frequency validates to
  \<open>ErrConfigInvalidLeaderActionFrequency\<close>. The checks stop at the first failure, so a
  configuration that also fails an earlier check gets that check's error:
  \<open>slow_leader_fast_poll\<close> has a shard check frequency of two minutes against a leader
  action frequency of one, and validates to \<open>ErrConfigInvalidThrottleDelay\<close>.
\<close>

theorem leader_frequency_counterexample:
  "leaderActionFrequency slow_leader_fast_poll <s shardCheckFrequency slow_leader_fast_poll
   \<and> validateConfig slow_leader_fast_poll = Some ErrConfigInvalidThrottleDelay
   \<and> validateConfig slow_leader_fast_poll \<noteq> Some ErrConfigInvalidLeaderActionFrequency"
  by (simp add: slow_leader_fast_poll_def validateConfig_def NewConfig_def modifier_defs
      unit_eqs word_sless_alt)

text \<open>
  Claim C5, amended: every configuration that passes the first three checks (throttle
  delay not below the floor, commit frequency and shard check frequency different from
  zero) and whose shard check frequency is strictly greater than its leader action
  frequency validates to \<open>ErrConfigInvalidLeaderActionFrequency\<close>, the error kind that a
  leader action frequency of zero gives as well. The default configuration with a shard
  check frequency of two minutes is such a configuration.
\<close>

theorem leader_frequency_rejected:
  assumes "\<not> throttleDelay c <s 200 * Millisecond"
    and "commitFrequency c \<noteq> 0"
    and "shardCheckFrequency c \<noteq> 0"
  shows "(leaderActionFrequency c <s shardCheckFrequency c \<longrightarrow>
            validateConfig c = Some ErrConfigInvalidLeaderActionFrequency)
       \<and> (leaderActionFrequency c = 0 \<longrightarrow>
            validateConfig c = Some ErrConfigInvalidLeaderActionFrequency)"
  using assms by (simp add: validateConfig_def)

theorem leader_frequency_rejected_witness:
  "validateConfig (WithShardCheckFrequency NewConfig (2 * Minute))
     = Some ErrConfigInvalidLeaderActionFrequency
   \<and> validateConfig (WithLeaderActionFrequency NewConfig 0)
     = Some ErrConfigInvalidLeaderActionFrequency"
proof -
  let ?a = "WithShardCheckFrequency NewConfig (2 * Minute)"
  let ?b = "WithLeaderActionFrequency NewConfig 0"
  have a: "\<not> throttleDelay ?a <s 200 * Millisecond" "commitFrequency ?a \<noteq> 0"
    "shardCheckFrequency ?a \<noteq> 0" "leaderActionFrequency ?a <s shardCheckFrequency ?a"
    by (simp_all add: NewConfig_def modifier_defs unit_eqs word_sless_alt)
  have b: "\<not> throttleDelay ?b <s 200 * Millisecond" "commitFrequency ?b \<noteq> 0"
    "shardCheckFrequency ?b \<noteq> 0" "leaderActionFrequency ?b = 0"
    by (simp_all add: NewConfig_def modifier_defs unit_eqs word_sless_alt)
  from leader_frequency_rejected [OF a(1,2,3)] a(4)
  have "validateConfig ?a = Some ErrConfigInvalidLeaderActionFrequency" by blast
  moreover from leader_frequency_rejected [OF b(1,2,3)] b(4)
  have "validateConfig ?b = Some ErrConfigInvalidLeaderActionFrequency" by blast
  ultimately show ?thesis by simp
qed

section \<open>The modifiers\<close>

text \<open>
  Claim C6, as stated: applying the same modifier twice to the same input produces two
  equal outputs. \<open>WithShardIteratorAtTimestamp\<close> stores the address of its own parameter,
  so two calls on the default configuration with the same instant return structs whose
  \<open>atTimestamp\<close> pointers differ: the two results are not equal.
\<close>

theorem same_call_twice_counterexample:
  "first (call_twice (ShardIteratorAtTimestamp noon) NewConfig [])
     \<noteq> second (call_twice (ShardIteratorAtTimestamp noon) NewConfig [])"
  by (simp add: call_twice_def WithShardIteratorAtTimestamp_def new_Time_def NewConfig_def)

text \<open>
  Claim C6, amended. For every modifier, receiver \<open>c\<close> and argument: the configuration
  returned equals \<open>c\<close> on every field outside the fields the modifier targets, and the
  targeted fields hold the values the method assigns; \<open>c\<close> is observably unchanged by the
  call, as the method works on a copy and every cell of the store holds after the call
  what it held before, the one \<open>c\<close> points to included; and applying the same modifier
  twice to the same input produces two equal outputs for every modifier other than
  \<open>WithShardIteratorAtTimestamp\<close>, whose two outputs agree on every field but
  \<open>atTimestamp\<close>, where they hold different pointers to equal instants.
\<close>

theorem modifier_value_semantics:
  "unchanged_outside (targets m) c (fst (apply_modifier m c h))
   \<and> take (length h) (snd (apply_modifier m c h)) = h
   \<and> (load h (atTimestamp c) \<noteq> BadPtr \<longrightarrow>
        load (snd (apply_modifier m c h)) (atTimestamp c) = load h (atTimestamp c))
   \<and> (\<not> allocates m \<longrightarrow> snd (apply_modifier m c h) = h)
   \<and> (\<not> allocates m \<longrightarrow> first (call_twice m c h) = second (call_twice m c h))
   \<and> (allocates m \<longrightarrow>
        atTimestamp (first (call_twice m c h)) \<noteq> atTimestamp (second (call_twice m c h)))
   \<and> same_content (store (call_twice m c h)) (first (call_twice m c h))
        (second (call_twice m c h))
   \<and> throttleDelay (WithThrottleDelay c d) = d
   \<and> commitFrequency (WithCommitFrequency c d) = d
   \<and> shardCheckFrequency (WithShardCheckFrequency c d) = d
   \<and> leaderActionFrequency (WithLeaderActionFrequency c d) = d
   \<and> bufferSize (WithBufferSize c n) = n
   \<and> stats (WithStats c s) = s
   \<and> dynamoReadCapacity (WithDynamoReadCapacity c n) = n
   \<and> dynamoWriteCapacity (WithDynamoWriteCapacity c n) = n
   \<and> dynamoWaiterDelay (WithDynamoWaiterDelay c d) = d
   \<and> logger (WithLogger c l) = l
   \<and> shardIteratorType (fst (WithShardIteratorAtTimestamp c t h))
       = ShardIteratorTypeAtTimestamp
   \<and> load (snd (WithShardIteratorAtTimestamp c t h))
        (atTimestamp (fst (WithShardIteratorAtTimestamp c t h))) = PointsTo t
   \<and> shardIteratorType (WithShardIteratorLatest c) = ShardIteratorTypeLatest
   \<and> shardIteratorType (WithShardIteratorAtSequenceNumber c sn) = ShardIteratorTypeLatest
   \<and> sequenceNumber (WithShardIteratorAtSequenceNumber c sn) = sn
   \<and> shardIteratorType (WithShardIteratorAfterSequenceNumber c sn)
       = ShardIteratorTypeAfterSequenceNumber
   \<and> sequenceNumber (WithShardIteratorAfterSequenceNumber c sn) = sn
   \<and> shardIteratorType (WithShardIteratorTrimHorizon c) = ShardIteratorTypeTrimHorizon"
proof -
  have no_cell: "snd (apply_modifier m c h) = h" if "\<not> allocates m"
    using that by (cases m) simp_all
  have assigned: "load (snd (WithShardIteratorAtTimestamp c t h))
      (atTimestamp (fst (WithShardIteratorAtTimestamp c t h))) = PointsTo t"
    by (simp add: WithShardIteratorAtTimestamp_def heap_defs)
  have kind: "shardIteratorType (fst (WithShardIteratorAtTimestamp c t h))
      = ShardIteratorTypeAtTimestamp"
    by (simp add: WithShardIteratorAtTimestamp_def new_Time_def)
  from apply_modifier_frame [of m c h] apply_modifier_keeps_cells [of h m c]
    apply_modifier_keeps_pointee [of h "atTimestamp c" m c] no_cell
    call_twice_equal [of m c h] call_twice_fresh_pointer [of m c h]
    call_twice_same_content [of m c h] assigned kind
  show ?thesis
    by (simp add: WithThrottleDelay_def WithCommitFrequency_def WithShardCheckFrequency_def
        WithLeaderActionFrequency_def WithBufferSize_def WithStats_def
        WithDynamoReadCapacity_def WithDynamoWriteCapacity_def WithDynamoWaiterDelay_def
        WithLogger_def WithShardIteratorLatest_def WithShardIteratorAtSequenceNumber_def
        WithShardIteratorAfterSequenceNumber_def WithShardIteratorTrimHorizon_def)
qed

theorem modifier_value_semantics_witness:
  "load [noon] (atTimestamp at_noon) \<noteq> BadPtr
   \<and> load (snd (apply_modifier (ShardIteratorAtTimestamp noon) at_noon [noon]))
        (atTimestamp at_noon) = PointsTo noon
   \<and> allocates (ShardIteratorAtTimestamp noon)
   \<and> atTimestamp (first (call_twice (ShardIteratorAtTimestamp noon) at_noon [noon]))
        \<noteq> atTimestamp (second (call_twice (ShardIteratorAtTimestamp noon) at_noon [noon]))
   \<and> \<not> allocates (BufferSize 7)
   \<and> snd (apply_modifier (BufferSize 7) at_noon [noon]) = [noon]
   \<and> first (call_twice (BufferSize 7) at_noon [noon])
        = second (call_twice (BufferSize 7) at_noon [noon])"
proof -
  have valid: "load [noon] (atTimestamp at_noon) = PointsTo noon"
    by (simp add: at_noon_def WithShardIteratorAtTimestamp_def heap_defs)
  have a: "allocates (ShardIteratorAtTimestamp noon)" and b: "\<not> allocates (BufferSize 7)"
    by simp_all
  from valid a
    modifier_value_semantics [of "ShardIteratorAtTimestamp noon" at_noon "[noon]"]
  have one: "load (snd (apply_modifier (ShardIteratorAtTimestamp noon) at_noon [noon]))
        (atTimestamp at_noon) = PointsTo noon
      \<and> atTimestamp (first (call_twice (ShardIteratorAtTimestamp noon) at_noon [noon]))
        \<noteq> atTimestamp (second (call_twice (ShardIteratorAtTimestamp noon) at_noon [noon]))"
    by simp
  from b modifier_value_semantics [of "BufferSize 7" at_noon "[noon]"]
  have two: "snd (apply_modifier (BufferSize 7) at_noon [noon]) = [noon]
      \<and> first (call_twice (BufferSize 7) at_noon [noon])
        = second (call_twice (BufferSize 7) at_noon [noon])"
    by blast
  from valid a b one two show ?thesis by simp
qed

text \<open>
  Claim C7. \<open>WithShardIteratorAtSequenceNumber\<close> sets the shard iterator type to the
  value that \<open>WithShardIteratorLatest\<close> sets, \<open>LATEST\<close>, which is not the
  \<open>AT_SEQUENCE_NUMBER\<close> type, and stores the sequence number it is given.
\<close>

theorem at_sequence_number_sets_latest:
  "shardIteratorType (WithShardIteratorAtSequenceNumber c sn) = ShardIteratorTypeLatest
   \<and> shardIteratorType (WithShardIteratorAtSequenceNumber c sn)
       = shardIteratorType (WithShardIteratorLatest c')
   \<and> shardIteratorType (WithShardIteratorAtSequenceNumber c sn)
       \<noteq> ShardIteratorTypeAtSequenceNumber
   \<and> sequenceNumber (WithShardIteratorAtSequenceNumber c sn) = sn"
  by (simp add: WithShardIteratorAtSequenceNumber_def WithShardIteratorLatest_def
      ShardIteratorTypeLatest_def ShardIteratorTypeAtSequenceNumber_def)

text \<open>
  Claim C8. For every configuration \<open>c\<close> and instant \<open>t\<close>,
  \<open>c.WithShardIteratorAtTimestamp(t)\<close> has the shard iterator type \<open>AT_TIMESTAMP\<close>, an
  \<open>atTimestamp\<close> that points to \<open>t\<close>, and the sequence number of \<open>c\<close>. The validator does
  not look at the start mode, so the result validates as \<open>c\<close> does, and from the default
  configuration it is accepted.
\<close>

theorem at_timestamp_keeps_sequence_number:
  "shardIteratorType (fst (WithShardIteratorAtTimestamp c t h)) = ShardIteratorTypeAtTimestamp
   \<and> load (snd (WithShardIteratorAtTimestamp c t h))
        (atTimestamp (fst (WithShardIteratorAtTimestamp c t h))) = PointsTo t
   \<and> sequenceNumber (fst (WithShardIteratorAtTimestamp c t h)) = sequenceNumber c
   \<and> validateConfig (fst (WithShardIteratorAtTimestamp c t h)) = validateConfig c
   \<and> validateConfig (fst (WithShardIteratorAtTimestamp NewConfig t h)) = None"
  by (simp add: WithShardIteratorAtTimestamp_def heap_defs validateConfig_ignores_start_mode
      validateConfig_NewConfig)

text \<open>
  Claim C9. Applying a modifier twice in a row is the same as applying it once with the
  last argument: for every modifier that only assigns, the single-field ones among them,
  the two configurations are equal; with equal arguments this is idempotence. For
  \<open>WithShardIteratorAtTimestamp\<close>, each call of which points \<open>atTimestamp\<close> to a cell of its
  own, the two configurations have the same content: the last instant wins.
\<close>

theorem modifier_last_writer_wins:
  "WithThrottleDelay (WithThrottleDelay c d) d' = WithThrottleDelay c d'
   \<and> WithCommitFrequency (WithCommitFrequency c d) d' = WithCommitFrequency c d'
   \<and> WithShardCheckFrequency (WithShardCheckFrequency c d) d' = WithShardCheckFrequency c d'
   \<and> WithLeaderActionFrequency (WithLeaderActionFrequency c d) d'
       = WithLeaderActionFrequency c d'
   \<and> WithBufferSize (WithBufferSize c n) n' = WithBufferSize c n'
   \<and> WithStats (WithStats c s) s' = WithStats c s'
   \<and> WithDynamoReadCapacity (WithDynamoReadCapacity c n) n' = WithDynamoReadCapacity c n'
   \<and> WithDynamoWriteCapacity (WithDynamoWriteCapacity c n) n' = WithDynamoWriteCapacity c n'
   \<and> WithDynamoWaiterDelay (WithDynamoWaiterDelay c d) d' = WithDynamoWaiterDelay c d'
   \<and> WithLogger (WithLogger c l) l' = WithLogger c l'
   \<and> WithShardIteratorLatest (WithShardIteratorLatest c) = WithShardIteratorLatest c
   \<and> WithShardIteratorAtSequenceNumber (WithShardIteratorAtSequenceNumber c sn) sn'
       = WithShardIteratorAtSequenceNumber c sn'
   \<and> WithShardIteratorAfterSequenceNumber (WithShardIteratorAfterSequenceNumber c sn) sn'
       = WithShardIteratorAfterSequenceNumber c sn'
   \<and> WithShardIteratorTrimHorizon (WithShardIteratorTrimHorizon c)
       = WithShardIteratorTrimHorizon c
   \<and> same_content (store (timestamp_again t t' c h)) (first (timestamp_again t t' c h))
        (second (timestamp_again t t' c h))
   \<and> load (store (timestamp_again t t' c h))
        (atTimestamp (first (timestamp_again t t' c h))) = PointsTo t'"
  by (simp add: modifier_defs timestamp_again_def same_content_def heap_defs nth_append)

text \<open>
  Claim C10, as stated: any two modifiers whose targeted field sets are disjoint
  commute. \<open>WithShardIteratorAtTimestamp\<close> and \<open>WithBufferSize\<close> target disjoint fields,
  but the two chained calls, each with its own call of \<open>WithShardIteratorAtTimestamp\<close>,
  return structs whose \<open>atTimestamp\<close> pointers differ: the two results are not equal.
\<close>

theorem disjoint_timestamp_counterexample:
  "targets (ShardIteratorAtTimestamp noon) \<inter> targets (BufferSize 5) = {}
   \<and> first (call_both_orders (ShardIteratorAtTimestamp noon) (BufferSize 5) NewConfig [])
       \<noteq> second (call_both_orders (ShardIteratorAtTimestamp noon) (BufferSize 5) NewConfig [])"
  by (simp add: call_both_orders_def WithShardIteratorAtTimestamp_def WithBufferSize_def
      new_Time_def NewConfig_def)

text \<open>
  Claim C10, amended. Modifiers that target disjoint sets of fields commute:
  \<open>c.WithThrottleDelay(d).WithBufferSize(n)\<close> equals
  \<open>c.WithBufferSize(n).WithThrottleDelay(d)\<close>, and so do any two modifier calls whose
  sets of targeted fields have no field in common and neither of which is
  \<open>WithShardIteratorAtTimestamp\<close>. With \<open>WithShardIteratorAtTimestamp\<close> as one of the two,
  the results of the two orders agree on every field but \<open>atTimestamp\<close>, where they hold
  pointers to equal instants.
\<close>

theorem disjoint_modifiers_commute:
  "WithBufferSize (WithThrottleDelay c d) n = WithThrottleDelay (WithBufferSize c n) d
   \<and> (targets m1 \<inter> targets m2 = {} \<and> \<not> allocates m1 \<and> \<not> allocates m2 \<longrightarrow>
        first (call_both_orders m1 m2 c' h) = second (call_both_orders m1 m2 c' h))
   \<and> (targets m1 \<inter> targets m2 = {} \<longrightarrow>
        same_content (store (call_both_orders m1 m2 c' h))
          (first (call_both_orders m1 m2 c' h)) (second (call_both_orders m1 m2 c' h)))"
proof -
  have two: "WithBufferSize (WithThrottleDelay c d) n = WithThrottleDelay (WithBufferSize c n) d"
    by (simp add: WithBufferSize_def WithThrottleDelay_def)
  from two both_orders_equal [of m1 m2 c' h] both_orders_same_content [of m1 m2 c' h]
  show ?thesis by blast
qed

theorem disjoint_modifiers_commute_witness:
  "targets (Stats None) \<inter> targets (ShardIteratorAtSequenceNumber ''49590'') = {}
   \<and> \<not> allocates (Stats None) \<and> \<not> allocates (ShardIteratorAtSequenceNumber ''49590'')
   \<and> first (call_both_orders (Stats None) (ShardIteratorAtSequenceNumber ''49590'')
        at_noon [noon])
       = second (call_both_orders (Stats None) (ShardIteratorAtSequenceNumber ''49590'')
        at_noon [noon])
   \<and> targets (ShardIteratorAtTimestamp noon) \<inter> targets (BufferSize 5) = {}
   \<and> same_content (store (call_both_orders (ShardIteratorAtTimestamp noon) (BufferSize 5)
        NewConfig []))
       (first (call_both_orders (ShardIteratorAtTimestamp noon) (BufferSize 5) NewConfig []))
       (second (call_both_orders (ShardIteratorAtTimestamp noon) (BufferSize 5) NewConfig []))"
proof -
  have d1: "targets (Stats None) \<inter> targets (ShardIteratorAtSequenceNumber ''49590'') = {}"
    and p1: "\<not> allocates (Stats None)"
    and p2: "\<not> allocates (ShardIteratorAtSequenceNumber ''49590'')"
    and d2: "targets (ShardIteratorAtTimestamp noon) \<inter> targets (BufferSize 5) = {}"
    by simp_all
  from d1 p1 p2 disjoint_modifiers_commute
    [of NewConfig 0 0 "Stats None" "ShardIteratorAtSequenceNumber ''49590''" at_noon "[noon]"]
  have one: "first (call_both_orders (Stats None) (ShardIteratorAtSequenceNumber ''49590'')
        at_noon [noon])
       = second (call_both_orders (Stats None) (ShardIteratorAtSequenceNumber ''49590'')
        at_noon [noon])"
    by blast
  from d2 disjoint_modifiers_commute
    [of NewConfig 0 0 "ShardIteratorAtTimestamp noon" "BufferSize 5" NewConfig "[]"]
  have two: "same_content (store (call_both_orders (ShardIteratorAtTimestamp noon) (BufferSize 5)
        NewConfig []))
       (first (call_both_orders (ShardIteratorAtTimestamp noon) (BufferSize 5) NewConfig []))
       (second (call_both_orders (ShardIteratorAtTimestamp noon) (BufferSize 5) NewConfig []))"
    by blast
  from d1 p1 p2 d2 one two show ?thesis by blast
qed

end
